theory Spec2Isabelle
  imports
    Main
    "HOL-Library.Char_ord"
    "HOL-Library.List_Lexorder"
    "HOL-Library.Multiset"
    "HOL-Library.AList"
    "HOL-Library.Product_Lexorder"
begin

section \<open>Strings and numbers as the Go code uses them\<close>

text \<open>
  A Go \<^verbatim>\<open>string\<close> is a sequence of bytes; it is modelled as \<^typ>\<open>string\<close> (a list of
  8-bit characters). Go compares strings byte by byte, lexicographically, which is the
  order \<open><\<close> of \<^typ>\<open>string\<close> given by the character order and the lexicographic order
  on lists.
\<close>

definition HasPrefix :: "string \<Rightarrow> string \<Rightarrow> bool" where
  "HasPrefix s p \<longleftrightarrow> take (length p) s = p"

definition TrimPrefix :: "string \<Rightarrow> string \<Rightarrow> string" where
  "TrimPrefix s p = (if HasPrefix s p then drop (length p) s else s)"

definition HasSuffix :: "string \<Rightarrow> string \<Rightarrow> bool" where
  "HasSuffix s x \<longleftrightarrow> length x \<le> length s \<and> drop (length s - length x) s = x"

definition TrimSuffix :: "string \<Rightarrow> string \<Rightarrow> string" where
  "TrimSuffix s x = (if HasSuffix s x then take (length s - length x) s else s)"

definition newline :: char where
  "newline = CHR 0x0A"

definition digit_char :: "nat \<Rightarrow> char" where
  "digit_char n = char_of (48 + n)"

text \<open>The decimal digits of a natural number, most significant first.\<close>

fun udec :: "nat \<Rightarrow> string" where
  "udec n = (if n < 10 then [digit_char n] else udec (n div 10) @ [digit_char (n mod 10)])"

declare udec.simps [simp del]

text \<open>\<^verbatim>\<open>fmt.Sprintf("%d", i)\<close> for a Go \<^verbatim>\<open>int\<close>.\<close>

definition itoa :: "int \<Rightarrow> string" where
  "itoa i = (if i < 0 then CHR ''-'' # udec (nat (- i)) else udec (nat i))"

text \<open>
  \<^verbatim>\<open>appendInt(b, x, width)\<close> of package time: the decimal form of \<open>x\<close>, padded with
  leading zeros to \<open>width\<close> digits, after the sign.
\<close>

definition appendInt :: "int \<Rightarrow> nat \<Rightarrow> string" where
  "appendInt x w =
     (if x < 0 then ''-'' else '''') @
     replicate (w - length (udec (nat \<bar>x\<bar>))) (CHR ''0'') @ udec (nat \<bar>x\<bar>)"

section \<open>Time values\<close>

text \<open>
  A \<^verbatim>\<open>time.Time\<close> is an instant together with a location. The model keeps the civil
  date and clock reading in the value's own zone and the zone's offset (seconds east of
  UTC) at that instant; the instant is computed from them by \<open>unix\<close>. Every value
  the Go library hands out has \<open>1 \<le> month \<le> 12\<close>, a day of that month, and a clock
  reading in range (\<open>valid_time\<close>). Monotonic clock readings are not modelled.
\<close>

record Time =
  year :: int
  month :: nat
  day :: nat
  hour :: nat
  minute :: nat
  second :: nat
  nanosecond :: nat
  zone_offset :: int

text \<open>The zero value \<^verbatim>\<open>time.Time{}\<close>: January 1, year 1, 00:00:00 UTC.\<close>

definition zero_time :: Time where
  "zero_time = \<lparr>year = 1, month = 1, day = 1, hour = 0, minute = 0, second = 0,
     nanosecond = 0, zone_offset = 0\<rparr>"

definition isLeap :: "int \<Rightarrow> bool" where
  "isLeap y \<longleftrightarrow> y mod 4 = 0 \<and> (y mod 100 \<noteq> 0 \<or> y mod 400 = 0)"

definition daysIn :: "nat \<Rightarrow> int \<Rightarrow> nat" where
  "daysIn m y =
     (if m = 2 then (if isLeap y then 29 else 28)
      else if m = 4 \<or> m = 6 \<or> m = 9 \<or> m = 11 then 30 else 31)"

definition valid_time :: "Time \<Rightarrow> bool" where
  "valid_time t \<longleftrightarrow>
     1 \<le> month t \<and> month t \<le> 12 \<and> 1 \<le> day t \<and> day t \<le> daysIn (month t) (year t) \<and>
     hour t < 24 \<and> minute t < 60 \<and> second t < 60 \<and> nanosecond t < 1000000000"

text \<open>Days from 1970-01-01 to the civil date (proleptic Gregorian calendar).\<close>

definition days_from_civil :: "int \<Rightarrow> nat \<Rightarrow> nat \<Rightarrow> int" where
  "days_from_civil y m d =
     (let y' = (if m \<le> 2 then y - 1 else y);
          era = y' div 400;
          yoe = y' - era * 400;
          mp = (if m > 2 then int m - 3 else int m + 9);
          doy = (153 * mp + 2) div 5 + int d - 1;
          doe = yoe * 365 + yoe div 4 - yoe div 100 + doy
      in era * 146097 + doe - 719468)"

text \<open>The instant: seconds since 1970-01-01 00:00:00 UTC.\<close>

definition unix :: "Time \<Rightarrow> int" where
  "unix t = days_from_civil (year t) (month t) (day t) * 86400
     + int (hour t) * 3600 + int (minute t) * 60 + int (second t) - zone_offset t"

text \<open>\<^verbatim>\<open>t.Equal(u)\<close> and \<^verbatim>\<open>t.Before(u)\<close> compare instants, whatever the locations.\<close>

definition Equal :: "Time \<Rightarrow> Time \<Rightarrow> bool" where
  "Equal t u \<longleftrightarrow> unix t = unix u \<and> nanosecond t = nanosecond u"

definition Before :: "Time \<Rightarrow> Time \<Rightarrow> bool" where
  "Before t u \<longleftrightarrow> unix t < unix u \<or> (unix t = unix u \<and> nanosecond t < nanosecond u)"

text \<open>The day of the week of the civil date, Sunday = 0 (1970-01-01 was a Thursday).\<close>

definition weekday :: "Time \<Rightarrow> nat" where
  "weekday t = nat ((days_from_civil (year t) (month t) (day t) + 4) mod 7)"

definition shortDayNames :: "string list" where
  "shortDayNames = [''Sun'', ''Mon'', ''Tue'', ''Wed'', ''Thu'', ''Fri'', ''Sat'']"

definition shortMonthNames :: "string list" where
  "shortMonthNames = [''Jan'', ''Feb'', ''Mar'', ''Apr'', ''May'', ''Jun'', ''Jul'', ''Aug'',
     ''Sep'', ''Oct'', ''Nov'', ''Dec'']"

text \<open>
  The zone as \<^verbatim>\<open>-0700\<close>: Go divides the offset by 60 truncating towards zero, then writes
  the sign, the hours and the minutes.
\<close>

definition format_zone :: "int \<Rightarrow> string" where
  "format_zone off =
     (let z = (if off < 0 then - ((- off) div 60) else off div 60)
      in (if z < 0 then ''-'' else ''+'') @ appendInt (\<bar>z\<bar> div 60) 2 @ appendInt (\<bar>z\<bar> mod 60) 2)"

text \<open>
  \<^verbatim>\<open>t.Format(time.RFC1123Z)\<close>, the layout \<^verbatim>\<open>Mon, 02 Jan 2006 15:04:05 -0700\<close>.
  The month name is read out of range for no valid time.
\<close>

definition Format_RFC1123Z :: "Time \<Rightarrow> string" where
  "Format_RFC1123Z t =
     shortDayNames ! weekday t @ '', '' @ appendInt (int (day t)) 2 @ '' '' @
     (if 1 \<le> month t \<and> month t \<le> 12 then shortMonthNames ! (month t - 1) else ''%!Month'') @ '' '' @
     appendInt (year t) 4 @ '' '' @
     appendInt (int (hour t)) 2 @ '':'' @ appendInt (int (minute t)) 2 @ '':'' @
     appendInt (int (second t)) 2 @ '' '' @ format_zone (zone_offset t)"

section \<open>The changelog model\<close>

record Version =
  Major :: int
  Minor :: int
  Patch :: int
  Prerelease :: string

record Change =
  Type :: string
  Body :: string

record Maintainer =
  Name :: string
  Email :: string

record Release =
  Date :: Time
  Changes :: "Change list"
  Urgency :: string
  Distribution :: string
  Maintainer :: Maintainer

text \<open>The zero values \<^verbatim>\<open>Version{}\<close> and \<^verbatim>\<open>Release{}\<close>.\<close>

definition zero_Version :: Version where
  "zero_Version = \<lparr>Major = 0, Minor = 0, Patch = 0, Prerelease = ''''\<rparr>"

definition zero_Release :: Release where
  "zero_Release = \<lparr>Date = zero_time, Changes = [], Urgency = '''', Distribution = '''',
     Maintainer = \<lparr>Name = '''', Email = ''''\<rparr>\<rparr>"

text \<open>
  \<^verbatim>\<open>type Changelog map[Version]Release\<close>. The map is an association list with one
  entry per key; its order stands for the order in which \<^verbatim>\<open>range\<close> happens to visit the
  map, which Go leaves unspecified. \<open>cl[v]\<close> reads the zero value at a missing key.
\<close>

type_synonym Changelog = "(Version \<times> Release) list"

definition has_key :: "Changelog \<Rightarrow> Version \<Rightarrow> bool" where
  "has_key cl v \<longleftrightarrow> map_of cl v \<noteq> None"

definition index :: "Changelog \<Rightarrow> Version \<Rightarrow> Release" where
  "index cl v = (case map_of cl v of Some r \<Rightarrow> r | None \<Rightarrow> zero_Release)"

definition assign :: "Changelog \<Rightarrow> Version \<Rightarrow> Release \<Rightarrow> Changelog" where
  "assign cl v r = AList.update v r cl"

section \<open>Stable sorting\<close>

text \<open>
  \<^verbatim>\<open>sort.SliceStable(xs, less)\<close> sorts in place, keeping the order of elements of which
  neither is less than the other. For a comparison that is a strict weak order the
  result is the one of the stable insertion sort below.
\<close>

fun insert_stable :: "('a \<Rightarrow> 'a \<Rightarrow> bool) \<Rightarrow> 'a \<Rightarrow> 'a list \<Rightarrow> 'a list" where
  "insert_stable lt x [] = [x]"
| "insert_stable lt x (y # ys) =
     (if lt y x then y # insert_stable lt x ys else x # y # ys)"

definition SliceStable :: "('a \<Rightarrow> 'a \<Rightarrow> bool) \<Rightarrow> 'a list \<Rightarrow> 'a list" where
  "SliceStable lt xs = foldr (insert_stable lt) xs []"

section \<open>The Debian formatter\<close>

text \<open>The local \<^verbatim>\<open>type release struct { v Version; d time.Time }\<close> is a pair.\<close>

type_synonym release = "Version \<times> Time"

text \<open>The comparison function of the first \<^verbatim>\<open>sort.SliceStable\<close> call.\<close>

definition release_less :: "release \<Rightarrow> release \<Rightarrow> bool" where
  "release_less a b =
     (if \<not> Equal (snd a) (snd b) then Before (snd a) (snd b)
      else if Major (fst a) \<noteq> Major (fst b) then Major (fst a) < Major (fst b)
      else if Minor (fst a) \<noteq> Minor (fst b) then Minor (fst a) < Minor (fst b)
      else if Patch (fst a) \<noteq> Patch (fst b) then Patch (fst a) < Patch (fst b)
      else Prerelease (fst a) < Prerelease (fst b))"

text \<open>The comparison function of the second call: changes by their type.\<close>

definition change_less :: "Change \<Rightarrow> Change \<Rightarrow> bool" where
  "change_less a b \<longleftrightarrow> Type a < Type b"

definition releases_of :: "Changelog \<Rightarrow> release list" where
  "releases_of cl = map (\<lambda>(ver, r). (ver, Date r)) cl"

text \<open>The order in which the loop writes the releases: the sorted slice, read from its end.\<close>

definition emit_order :: "Changelog \<Rightarrow> release list" where
  "emit_order cl = rev (SliceStable release_less (releases_of cl))"

definition version_string :: "Version \<Rightarrow> string" where
  "version_string ver =
     (let s = itoa (Major ver) @ ''.'' @ itoa (Minor ver) @ ''.'' @ itoa (Patch ver)
      in if Prerelease ver \<noteq> '''' then s @ ''-'' @ Prerelease ver else s)"

definition with_defaults :: "Release \<Rightarrow> Release" where
  "with_defaults rel =
     (let rel1 = (if Urgency rel = '''' then rel\<lparr>Urgency := ''medium''\<rparr> else rel)
      in if Distribution rel1 = '''' then rel1\<lparr>Distribution := ''stable''\<rparr> else rel1)"

definition header_line :: "string \<Rightarrow> Version \<Rightarrow> Release \<Rightarrow> string" where
  "header_line packageName ver rel =
     packageName @ '' ('' @ version_string ver @ '') '' @ Distribution rel @
     ''; urgency='' @ Urgency rel"

definition change_line :: "Change \<Rightarrow> string" where
  "change_line ch = ''  * '' @ Type ch @ '': '' @ Body ch"

definition trailer_line :: "Release \<Rightarrow> Time \<Rightarrow> string" where
  "trailer_line rel d =
     '' -- '' @ Name (Maintainer rel) @ '' <'' @ Email (Maintainer rel) @ ''>  '' @
     Format_RFC1123Z d"

text \<open>The text one pass of the loop adds for the release \<open>r\<close>, whose copy is \<open>rel\<close>.\<close>

definition release_text :: "string \<Rightarrow> Release \<Rightarrow> release \<Rightarrow> string" where
  "release_text packageName rel r =
     header_line packageName (fst r) rel @ [newline, newline] @
     concat (map (\<lambda>ch. change_line ch @ [newline]) (SliceStable change_less (Changes rel))) @
     [newline] @ trailer_line rel (snd r) @ [newline, newline]"

text \<open>
  One pass of the loop body, on the text written so far and the caller's map.
  \<^verbatim>\<open>rel := cl[r.v]\<close> copies the struct, so the defaults are set in the copy only; the
  copy's \<^verbatim>\<open>Changes\<close> slice shares its backing array with the slice stored in the map,
  so the in-place sort reorders the changes the caller's map holds for that version.
  (Releases are taken not to share a backing array with one another.)
\<close>

definition debian_step :: "string \<Rightarrow> string \<times> Changelog \<Rightarrow> release \<Rightarrow> string \<times> Changelog" where
  "debian_step packageName st r =
     (let cl = snd st;
          rel = with_defaults (index cl (fst r))
      in (fst st @ release_text packageName rel r,
          if has_key cl (fst r)
          then assign cl (fst r)
                 ((index cl (fst r))\<lparr>Changes := SliceStable change_less (Changes rel)\<rparr>)
          else cl))"

definition debian_loop :: "string \<Rightarrow> Changelog \<Rightarrow> string \<times> Changelog" where
  "debian_loop packageName cl = foldl (debian_step packageName) ('''', cl) (emit_order cl)"

text \<open>The bytes \<^verbatim>\<open>cl.Debian(packageName)\<close> returns (its error is always nil).\<close>

definition Debian :: "string \<Rightarrow> Changelog \<Rightarrow> string" where
  "Debian packageName cl = TrimSuffix (fst (debian_loop packageName cl)) [newline]"

text \<open>The caller's map after the call.\<close>

definition Debian_model_after :: "string \<Rightarrow> Changelog \<Rightarrow> Changelog" where
  "Debian_model_after packageName cl = snd (debian_loop packageName cl)"

section \<open>Regular expressions\<close>

text \<open>
  The fragment of Go's \<^verbatim>\<open>regexp\<close> syntax the two patterns of the package use. A
  character class is a list of ranges (\<^verbatim>\<open>\d\<close> is the ASCII digits), repetition and
  option are greedy, \<open>Group\<close> is a named capturing group and \<open>EndText\<close> is \<^verbatim>\<open>$\<close>.
\<close>

datatype regex =
    Class "(char \<times> char) list"
  | Seq regex regex
  | Alt regex regex
  | Star regex
  | Opt regex
  | Group string regex
  | EndText

definition in_class :: "char \<Rightarrow> (char \<times> char) list \<Rightarrow> bool" where
  "in_class c rs \<longleftrightarrow> list_ex (\<lambda>r. fst r \<le> c \<and> c \<le> snd r) rs"

type_synonym captures = "(string \<times> string) list"

text \<open>
  Go's matcher returns the leftmost match and, among the matches that start there, the
  one a backtracking matcher finds first. \<open>ends r s c\<close> lists, in the order in which
  backtracking tries them, the ways \<open>r\<close> matches a prefix of \<open>s\<close>: what is left of \<open>s\<close>
  after the match, and the captures (the latest first). An iteration of a star that
  consumes nothing is not repeated.
\<close>

function ends :: "regex \<Rightarrow> string \<Rightarrow> captures \<Rightarrow> (string \<times> captures) list" where
  "ends (Class rs) s c =
     (case s of [] \<Rightarrow> [] | x # xs \<Rightarrow> if in_class x rs then [(xs, c)] else [])"
| "ends (Seq r1 r2) s c = concat (map (\<lambda>p. ends r2 (fst p) (snd p)) (ends r1 s c))"
| "ends (Alt r1 r2) s c = ends r1 s c @ ends r2 s c"
| "ends (Star r) s c =
     concat (map (\<lambda>p. if length (fst p) < length s then ends (Star r) (fst p) (snd p) else [])
       (ends r s c)) @ [(s, c)]"
| "ends (Opt r) s c = ends r s c @ [(s, c)]"
| "ends (Group n r) s c =
     map (\<lambda>p. (fst p, (n, take (length s - length (fst p)) s) # snd p)) (ends r s c)"
| "ends EndText s c = (if s = [] then [(s, c)] else [])"
  by pat_completeness auto
termination
  by (relation "measures [\<lambda>(r, s, c). size r, \<lambda>(r, s, c). length s]") auto

text \<open>The match that starts at the beginning of \<open>s\<close>, if any: its text and its captures.\<close>

definition match_here :: "regex \<Rightarrow> string \<Rightarrow> (string \<times> captures) option" where
  "match_here r s =
     (case ends r s [] of [] \<Rightarrow> None
      | p # _ \<Rightarrow> Some (take (length s - length (fst p)) s, snd p))"

text \<open>The leftmost match.\<close>

fun search :: "regex \<Rightarrow> string \<Rightarrow> (string \<times> captures) option" where
  "search r [] = match_here r []"
| "search r (x # xs) =
     (case match_here r (x # xs) of Some m \<Rightarrow> Some m | None \<Rightarrow> search r xs)"

text \<open>\<^verbatim>\<open>re.FindString(s)\<close>: the text of the leftmost match, the empty string if none.\<close>

definition FindString :: "regex \<Rightarrow> string \<Rightarrow> string" where
  "FindString r s = (case search r s of None \<Rightarrow> [] | Some m \<Rightarrow> fst m)"

text \<open>
  \<^verbatim>\<open>MatchString\<close> of the pattern \<^verbatim>\<open>^r$\<close>: some match of \<open>r\<close> starts at the beginning of
  the text and ends at its end.
\<close>

definition MatchString_anchored :: "regex \<Rightarrow> string \<Rightarrow> bool" where
  "MatchString_anchored r s \<longleftrightarrow> ends (Seq r EndText) s [] \<noteq> []"

text \<open>What \<^verbatim>\<open>${name}\<close> expands to: the group's latest capture, empty if it took no part.\<close>

definition expand_group :: "string \<Rightarrow> captures \<Rightarrow> string" where
  "expand_group name c = (case map_of c name of None \<Rightarrow> [] | Some t \<Rightarrow> t)"

text \<open>
  \<^verbatim>\<open>re.ReplaceAllString(s, "${name}")\<close>: every match, found from left to right, is
  replaced by the text of the named group, and the text between matches is kept. (The
  library's rule for empty matches is not modelled: an empty match is passed over;
  \<open>semver\<close>, the one pattern this is called on, matches no empty text.)
\<close>

function ReplaceAllString :: "regex \<Rightarrow> string \<Rightarrow> string \<Rightarrow> string" where
  "ReplaceAllString r s name =
     (case s of [] \<Rightarrow> []
      | x # xs \<Rightarrow>
         (case match_here r s of
            None \<Rightarrow> x # ReplaceAllString r xs name
          | Some m \<Rightarrow>
              if fst m = [] then x # ReplaceAllString r xs name
              else expand_group name (snd m) @ ReplaceAllString r (drop (length (fst m)) s) name))"
  by pat_completeness auto
termination
  by (relation "measure (\<lambda>(r, s, name). length s)") auto

declare ReplaceAllString.simps [simp del]

definition Lit :: "char \<Rightarrow> regex" where
  "Lit c = Class [(c, c)]"

definition digit :: regex where
  "digit = Class [(CHR ''0'', CHR ''9'')]"

text \<open>\<^verbatim>\<open>0|[1-9]\d*\<close>\<close>

definition numeric :: regex where
  "numeric = Alt (Lit (CHR ''0'')) (Seq (Class [(CHR ''1'', CHR ''9'')]) (Star digit))"

text \<open>\<^verbatim>\<open>[0-9a-zA-Z-]\<close>\<close>

definition alnum_hyphen :: regex where
  "alnum_hyphen = Class [(CHR ''0'', CHR ''9''), (CHR ''a'', CHR ''z''), (CHR ''A'', CHR ''Z''),
     (CHR ''-'', CHR ''-'')]"

text \<open>\<^verbatim>\<open>0|[1-9]\d*|\d*[a-zA-Z-][0-9a-zA-Z-]*\<close>\<close>

definition prerelease_ident :: regex where
  "prerelease_ident =
     Alt (Lit (CHR ''0''))
      (Alt (Seq (Class [(CHR ''1'', CHR ''9'')]) (Star digit))
        (Seq (Star digit)
          (Seq (Class [(CHR ''a'', CHR ''z''), (CHR ''A'', CHR ''Z''), (CHR ''-'', CHR ''-'')])
            (Star alnum_hyphen))))"

text \<open>\<^verbatim>\<open>[0-9a-zA-Z-]+\<close>\<close>

definition build_ident :: regex where
  "build_ident = Seq alnum_hyphen (Star alnum_hyphen)"

text \<open>The package's pattern \<^verbatim>\<open>semver\<close>, group by group.\<close>

definition semver :: regex where
  "semver =
     Seq (Group ''major'' numeric)
      (Seq (Lit (CHR ''.''))
        (Seq (Group ''minor'' numeric)
          (Seq (Lit (CHR ''.''))
            (Seq (Group ''patch'' numeric)
              (Seq (Opt (Seq (Lit (CHR ''-''))
                     (Group ''prerelease''
                       (Seq prerelease_ident (Star (Seq (Lit (CHR ''.'')) prerelease_ident))))))
                   (Opt (Seq (Lit (CHR ''+''))
                     (Group ''buildmetadata''
                       (Seq build_ident (Star (Seq (Lit (CHR ''.'')) build_ident)))))))))))"

text \<open>The package's pattern \<^verbatim>\<open>dateRe\<close>: \<^verbatim>\<open> \d{4}-\d{2}-\d{2}$\<close>.\<close>

definition dateRe :: regex where
  "dateRe =
     Seq (Lit (CHR '' ''))
      (Seq digit (Seq digit (Seq digit (Seq digit
        (Seq (Lit (CHR ''-''))
          (Seq digit (Seq digit
            (Seq (Lit (CHR ''-''))
              (Seq digit (Seq digit EndText))))))))))"

section \<open>Errors\<close>

text \<open>
  The package's sentinel \<^verbatim>\<open>ErrNotSemver\<close> and the four errors the parsers build with
  \<^verbatim>\<open>fmt.Errorf\<close>, each carrying the version string its message names. A Go \<^verbatim>\<open>error\<close>
  result is an \<open>error option\<close>; \<open>None\<close> is \<^verbatim>\<open>nil\<close>.
\<close>

datatype error =
    ErrNotSemver
  | MultipleReleases string
  | CantParseAuthorLine string
  | NoEmail string
  | CouldNotParseDate string

definition error_message :: "error \<Rightarrow> string" where
  "error_message e =
     (case e of
        ErrNotSemver \<Rightarrow> ''not semver''
      | MultipleReleases vs \<Rightarrow> ''multiple releases for '' @ vs
      | CantParseAuthorLine vs \<Rightarrow> ''can't parse author line for '' @ vs
      | NoEmail vs \<Rightarrow> ''error parsing maintainer for '' @ vs @ '' - no email?''
      | CouldNotParseDate vs \<Rightarrow> ''could not parse release date for '' @ vs)"

section \<open>Versions from strings\<close>

definition is_digit :: "char \<Rightarrow> bool" where
  "is_digit c \<longleftrightarrow> CHR ''0'' \<le> c \<and> c \<le> CHR ''9''"

definition digit_val :: "char \<Rightarrow> nat" where
  "digit_val c = of_char c - 48"

definition dec_value :: "string \<Rightarrow> nat" where
  "dec_value ds = foldl (\<lambda>a c. 10 * a + digit_val c) 0 ds"

text \<open>
  \<^verbatim>\<open>strconv.Atoi\<close> on a platform whose \<^verbatim>\<open>int\<close> has 64 bits: an optional sign, then
  decimal digits only, and a value in range; \<open>None\<close> is its error.
\<close>

definition Atoi :: "string \<Rightarrow> int option" where
  "Atoi s =
     (let neg = (s \<noteq> [] \<and> hd s = CHR ''-'');
          ds = (if s \<noteq> [] \<and> (hd s = CHR ''-'' \<or> hd s = CHR ''+'') then tl s else s)
      in if ds = [] \<or> \<not> list_all is_digit ds then None
         else let i = (if neg then - int (dec_value ds) else int (dec_value ds))
              in if - (2 ^ 63) \<le> i \<and> i \<le> 2 ^ 63 - 1 then Some i else None)"

text \<open>
  \<^verbatim>\<open>ToVersion\<close>. Inside the \<^verbatim>\<open>if\<close> the three \<^verbatim>\<open>major, err := strconv.Atoi(...)\<close>
  declare an \<^verbatim>\<open>err\<close> of their own, so a failing \<^verbatim>\<open>Atoi\<close> leaves both named results
  as they are: the zero version and no error.
\<close>

definition ToVersion :: "string \<Rightarrow> Version \<times> error option" where
  "ToVersion s =
     (if MatchString_anchored semver s then
        (case Atoi (ReplaceAllString semver s ''major'') of
           None \<Rightarrow> (zero_Version, None)
         | Some major \<Rightarrow>
            (case Atoi (ReplaceAllString semver s ''minor'') of
               None \<Rightarrow> (zero_Version, None)
             | Some minor \<Rightarrow>
                (case Atoi (ReplaceAllString semver s ''patch'') of
                   None \<Rightarrow> (zero_Version, None)
                 | Some patch \<Rightarrow>
                    (\<lparr>Major = major, Minor = minor, Patch = patch,
                      Prerelease = ReplaceAllString semver s ''prerelease''\<rparr>, None))))
      else (zero_Version, Some ErrNotSemver))"

section \<open>Splitting strings\<close>

text \<open>
  \<^verbatim>\<open>strings.Split(s, sep)\<close> for a separator that is not empty (every call of the
  package passes a literal): the pieces between the occurrences of \<open>sep\<close>, found from
  left to right without overlap. \<open>acc\<close> is the piece read so far, reversed.
\<close>

function split_from :: "string \<Rightarrow> string \<Rightarrow> string \<Rightarrow> string list" where
  "split_from sep acc s =
     (case s of [] \<Rightarrow> [rev acc]
      | x # xs \<Rightarrow>
          if sep \<noteq> [] \<and> HasPrefix s sep then rev acc # split_from sep [] (drop (length sep) s)
          else split_from sep (x # acc) xs)"
  by pat_completeness auto
termination
  by (relation "measure (\<lambda>(sep, acc, s). length s)") auto

declare split_from.simps [simp del]

definition Split :: "string \<Rightarrow> string \<Rightarrow> string list" where
  "Split s sep = split_from sep [] s"

text \<open>\<^verbatim>\<open>strings.SplitN(s, sep, 2)\<close>: cut at the first occurrence of \<open>sep\<close>, if there is one.\<close>

fun cut_from :: "string \<Rightarrow> string \<Rightarrow> string \<Rightarrow> string list" where
  "cut_from sep acc [] = [rev acc]"
| "cut_from sep acc (x # xs) =
     (if HasPrefix (x # xs) sep then [rev acc, drop (length sep) (x # xs)]
      else cut_from sep (x # acc) xs)"

definition SplitN2 :: "string \<Rightarrow> string \<Rightarrow> string list" where
  "SplitN2 s sep = cut_from sep [] s"

section \<open>Dates from strings\<close>

text \<open>
  The helpers of \<^verbatim>\<open>time.Parse\<close>. \<open>getnum\<close> reads a one- or two-digit number (two digits
  only when \<open>fixed\<close>); \<open>skip_space\<close> is what \<^verbatim>\<open>skip\<close> does at a space of the layout: the
  value must be at its end or at a space, and all its leading spaces go; \<open>skip_char\<close> is
  \<^verbatim>\<open>skip\<close> at any other character of the layout; \<open>lookup\<close> finds the first name of the
  table the value starts with, letter case ignored.
\<close>

definition getnum :: "string \<Rightarrow> bool \<Rightarrow> (nat \<times> string) option" where
  "getnum s fixed =
     (case s of
        [] \<Rightarrow> None
      | a # r \<Rightarrow>
          if \<not> is_digit a then None
          else (case r of
                  [] \<Rightarrow> if fixed then None else Some (digit_val a, r)
                | b # r' \<Rightarrow>
                    if is_digit b then Some (digit_val a * 10 + digit_val b, r')
                    else if fixed then None else Some (digit_val a, r)))"

definition skip_space :: "string \<Rightarrow> string option" where
  "skip_space s =
     (if s \<noteq> [] \<and> hd s \<noteq> CHR '' '' then None else Some (dropWhile (\<lambda>c. c = CHR '' '') s))"

definition skip_char :: "char \<Rightarrow> string \<Rightarrow> string option" where
  "skip_char c s = (case s of [] \<Rightarrow> None | x # xs \<Rightarrow> if x = c then Some xs else None)"

definition lower :: "char \<Rightarrow> char" where
  "lower c = (if CHR ''A'' \<le> c \<and> c \<le> CHR ''Z'' then char_of (of_char c + (32::nat)) else c)"

fun lookup :: "string list \<Rightarrow> nat \<Rightarrow> string \<Rightarrow> (nat \<times> string) option" where
  "lookup [] i val = None"
| "lookup (n # tab) i val =
     (if length n \<le> length val \<and> map lower (take (length n) val) = map lower n
      then Some (i, drop (length n) val) else lookup tab (Suc i) val)"

text \<open>The four-digit year of \<^verbatim>\<open>2006\<close>: four characters, all of them digits.\<close>

definition long_year :: "string \<Rightarrow> (int \<times> string) option" where
  "long_year s =
     (if length s < 4 \<or> \<not> list_all is_digit (take 4 s) then None
      else Some (int (dec_value (take 4 s)), drop 4 s))"

text \<open>
  \<^verbatim>\<open>time.Parse\<close> reads the value piece by piece, along the layout; each piece below takes
  the value that is left and gives what it read and the rest, or \<open>None\<close> for an error.
  \<open>month_num\<close> is \<^verbatim>\<open>01\<close>, \<open>hour_num\<close> is \<^verbatim>\<open>15\<close> (one digit is enough), \<open>minute_num\<close> and
  \<open>second_num\<close> are \<^verbatim>\<open>04\<close> and \<^verbatim>\<open>05\<close>, each with its range check.
\<close>

definition month_num :: "string \<Rightarrow> (nat \<times> string) option" where
  "month_num s =
     Option.bind (getnum s True) (\<lambda>p. if fst p < 1 \<or> 12 < fst p then None else Some p)"

definition hour_num :: "string \<Rightarrow> (nat \<times> string) option" where
  "hour_num s = Option.bind (getnum s False) (\<lambda>p. if 24 \<le> fst p then None else Some p)"

definition minute_num :: "string \<Rightarrow> (nat \<times> string) option" where
  "minute_num s = Option.bind (getnum s True) (\<lambda>p. if 60 \<le> fst p then None else Some p)"

text \<open>The day of the month is checked once the month and the year are known.\<close>

definition day_ok :: "nat \<Rightarrow> nat \<Rightarrow> int \<Rightarrow> bool" where
  "day_ok d m y \<longleftrightarrow> 1 \<le> d \<and> d \<le> daysIn m y"

text \<open>
  \<^verbatim>\<open>time.Parse(" 2006-01-02", s)\<close>: the date at midnight UTC; \<open>None\<close> is its error (for
  which the Go function returns the zero time).
\<close>

definition Parse_date :: "string \<Rightarrow> Time option" where
  "Parse_date s =
     Option.bind (skip_space s) (\<lambda>s1.
     Option.bind (long_year s1) (\<lambda>y.
     Option.bind (skip_char (CHR ''-'') (snd y)) (\<lambda>s2.
     Option.bind (month_num s2) (\<lambda>m.
     Option.bind (skip_char (CHR ''-'') (snd m)) (\<lambda>s3.
     Option.bind (getnum s3 True) (\<lambda>d.
       if snd d \<noteq> [] \<or> \<not> day_ok (fst d) (fst m) (fst y) then None
       else Some \<lparr>year = fst y, month = fst m, day = fst d, hour = 0, minute = 0, second = 0,
              nanosecond = 0, zone_offset = 0\<rparr>))))))"

text \<open>
  A fraction of a second after the seconds, which \<^verbatim>\<open>Parse\<close> accepts though the layout has
  none: a period or comma and digits, of which the first nine count.
\<close>

definition fraction :: "string \<Rightarrow> nat \<times> string" where
  "fraction s =
     (case s of
        p # b # r \<Rightarrow>
          if (p = CHR ''.'' \<or> p = CHR '','') \<and> is_digit b
          then (let ds = takeWhile is_digit (b # r); ds9 = take 9 ds
                in (dec_value ds9 * 10 ^ (9 - length ds9), drop (length ds) (b # r)))
          else (0, s)
      | _ \<Rightarrow> (0, s))"

text \<open>The zone \<^verbatim>\<open>-0700\<close>: a sign, two digits of hours, two digits of minutes.\<close>

definition num_tz :: "string \<Rightarrow> (int \<times> string) option" where
  "num_tz s =
     (if length s < 5 then None
      else
        Option.bind (getnum (take 2 (drop 1 s)) True) (\<lambda>hr.
        Option.bind (getnum (take 2 (drop 3 s)) True) (\<lambda>mm.
          if 24 < fst hr \<or> 60 < fst mm then None
          else if hd s = CHR ''+'' then Some (int ((fst hr * 60 + fst mm) * 60), drop 5 s)
          else if hd s = CHR ''-'' then Some (- int ((fst hr * 60 + fst mm) * 60), drop 5 s)
          else None)))"

text \<open>
  \<^verbatim>\<open>time.Parse(time.RFC1123Z, s)\<close>, the layout \<^verbatim>\<open>Mon, 02 Jan 2006 15:04:05 -0700\<close>.
  The name of the weekday is read and not compared with the date.
\<close>

definition Parse_RFC1123Z :: "string \<Rightarrow> Time option" where
  "Parse_RFC1123Z s =
     Option.bind (lookup shortDayNames 0 s) (\<lambda>wd.
     Option.bind (skip_char (CHR '','') (snd wd)) (\<lambda>s1.
     Option.bind (skip_space s1) (\<lambda>s2.
     Option.bind (getnum s2 True) (\<lambda>d.
     Option.bind (skip_space (snd d)) (\<lambda>s3.
     Option.bind (lookup shortMonthNames 1 s3) (\<lambda>m.
     Option.bind (skip_space (snd m)) (\<lambda>s4.
     Option.bind (long_year s4) (\<lambda>y.
     Option.bind (skip_space (snd y)) (\<lambda>s5.
     Option.bind (hour_num s5) (\<lambda>h.
     Option.bind (skip_char (CHR '':'') (snd h)) (\<lambda>s6.
     Option.bind (minute_num s6) (\<lambda>mi.
     Option.bind (skip_char (CHR '':'') (snd mi)) (\<lambda>s7.
     Option.bind (minute_num s7) (\<lambda>sec.
     Option.bind (skip_space (snd (fraction (snd sec)))) (\<lambda>s8.
     Option.bind (num_tz s8) (\<lambda>off.
       if snd off \<noteq> [] \<or> \<not> day_ok (fst d) (fst m) (fst y) then None
       else Some \<lparr>year = fst y, month = fst m, day = fst d, hour = fst h, minute = fst mi,
              second = fst sec, nanosecond = fst (fraction (snd sec)),
              zone_offset = fst off\<rparr>))))))))))))))))"

section \<open>Reading lines\<close>

text \<open>
  The lines a \<^verbatim>\<open>bufio.Scanner\<close> with the default split function and buffer hands out
  for the bytes of a reader: each line without its newline and without one trailing
  carriage return; a last line that is not empty needs no newline. A line of more than
  65535 bytes does not fit the scanner's buffer: \<^verbatim>\<open>Scan\<close> returns false there, and the
  parsers, which do not look at \<^verbatim>\<open>scanner.Err()\<close>, take it for the end of the input.
\<close>

definition dropCR :: "string \<Rightarrow> string" where
  "dropCR s = (if s \<noteq> [] \<and> last s = CHR 0x0D then butlast s else s)"

function scan_lines :: "string \<Rightarrow> string list" where
  "scan_lines data =
     (if data = [] then []
      else let tok = takeWhile (\<lambda>c. c \<noteq> newline) data
           in if 65535 < length tok then []
              else dropCR tok # scan_lines (drop (Suc (length tok)) data))"
  by pat_completeness auto
termination
  by (relation "measure length") auto

declare scan_lines.simps [simp del]

section \<open>The Markdown parser\<close>

text \<open>The variables of \<^verbatim>\<open>ParseMd\<close>: the two results and the two locals of the loop.\<close>

record md_state =
  md_cl :: Changelog
  md_err :: "error option"
  md_curVer :: "Version option"
  md_curGrp :: string

definition md_init :: md_state where
  "md_init = \<lparr>md_cl = [], md_err = None, md_curVer = None, md_curGrp = []\<rparr>"

text \<open>The body of the loop, for one line.\<close>

definition md_line :: "md_state \<Rightarrow> string \<Rightarrow> md_state" where
  "md_line st line =
     (if HasPrefix line ''## '' then
        (let verString = FindString semver line;
             res = ToVersion verString
         in case snd res of
              Some e \<Rightarrow> st\<lparr>md_err := Some e\<rparr>
            | None \<Rightarrow>
               (let ver = fst res;
                    d = (case Parse_date (FindString dateRe line) of
                           Some t \<Rightarrow> t | None \<Rightarrow> zero_time);
                    err1 = (if has_key (md_cl st) ver
                            then Some (MultipleReleases verString) else None)
                in st\<lparr>md_cl := assign (md_cl st) ver (zero_Release\<lparr>Date := d\<rparr>),
                      md_err := err1, md_curVer := Some ver\<rparr>))
      else if HasPrefix line ''### '' then st\<lparr>md_curGrp := TrimPrefix line ''### ''\<rparr>
      else (case md_curVer st of
              Some ver \<Rightarrow>
                if HasPrefix line ''- '' then
                  (let rel = index (md_cl st) ver;
                       rel1 = rel\<lparr>Changes := Changes rel @
                                [\<lparr>Type = md_curGrp st, Body = TrimPrefix line ''- ''\<rparr>]\<rparr>
                   in st\<lparr>md_cl := assign (md_cl st) ver rel1\<rparr>)
                else st
            | None \<Rightarrow> st))"

definition md_lines :: "md_state \<Rightarrow> string list \<Rightarrow> md_state" where
  "md_lines st ls = foldl md_line st ls"

definition ParseMd :: "string \<Rightarrow> Changelog \<times> error option" where
  "ParseMd r = (let st = md_lines md_init (scan_lines r) in (md_cl st, md_err st))"

section \<open>The Debian parser\<close>

text \<open>The loop over the words of a header line.\<close>

definition header_fields :: "string \<Rightarrow> Release \<Rightarrow> Release" where
  "header_fields line rel =
     foldl (\<lambda>rel comp.
        if HasSuffix comp '';'' then rel\<lparr>Distribution := TrimSuffix comp '';''\<rparr>
        else if HasPrefix comp ''urgency='' then rel\<lparr>Urgency := TrimPrefix comp ''urgency=''\<rparr>
        else rel) rel (Split line '' '')"

text \<open>The change a line that starts with \<^verbatim>\<open>"  * "\<close> stands for, from the rest of the line.\<close>

definition parse_change :: "string \<Rightarrow> Change" where
  "parse_change line =
     (let s = SplitN2 line '': ''
      in if length s = 2 then \<lparr>Type = s ! 0, Body = s ! 1\<rparr> else \<lparr>Type = [], Body = line\<rparr>)"

text \<open>
  The inner loop reads the lines of one block from the same scanner. Its first test: a
  line that starts with \<^verbatim>\<open>"  * "\<close> loses that prefix and adds a change to \<open>rel\<close>. The
  second test sees the line as the first one left it.
\<close>

definition strip_change :: "string \<Rightarrow> string" where
  "strip_change line = (if HasPrefix line ''  * '' then TrimPrefix line ''  * '' else line)"

definition add_change :: "Release \<Rightarrow> string \<Rightarrow> Release" where
  "add_change rel line =
     (if HasPrefix line ''  * ''
      then rel\<lparr>Changes := Changes rel @ [parse_change (TrimPrefix line ''  * '')]\<rparr> else rel)"

text \<open>
  The second test's branch, for a line that starts with \<^verbatim>\<open>" -- "\<close>: the map and the
  error it leaves; after it the inner loop is over. The release is stored in the map on
  the last path only.
\<close>

definition deb_trailer ::
  "string \<Rightarrow> Version \<Rightarrow> Release \<Rightarrow> Changelog \<Rightarrow> error option \<Rightarrow> string \<Rightarrow>
   Changelog \<times> error option" where
  "deb_trailer verString ver rel cl err line =
     (let s = Split (TrimPrefix line '' -- '') ''  ''
      in if length s \<noteq> 2 then (cl, Some (CantParseAuthorLine verString))
         else
           (let a = Split (s ! 0) '' <'';
                maint = (if length a = 2
                         then \<lparr>Name = a ! 0, Email = TrimSuffix (a ! 1) ''>''\<rparr>
                         else \<lparr>Name = s ! 0, Email = []\<rparr>);
                err1 = (if length a = 2 then err else Some (NoEmail verString));
                rel2 = rel\<lparr>Maintainer := maint\<rparr>
            in case Parse_RFC1123Z (s ! 1) of
                 None \<Rightarrow> (cl, Some (CouldNotParseDate verString))
               | Some d \<Rightarrow> (assign cl ver (rel2\<lparr>Date := d\<rparr>), err1)))"

text \<open>The inner loop: the map, the error and the lines the scanner has left.\<close>

fun deb_block ::
  "string \<Rightarrow> Version \<Rightarrow> Release \<Rightarrow> Changelog \<Rightarrow> error option \<Rightarrow> string list \<Rightarrow>
   Changelog \<times> error option \<times> string list" where
  "deb_block verString ver rel cl err [] = (cl, err, [])"
| "deb_block verString ver rel cl err (line # rest) =
     (if HasPrefix (strip_change line) '' -- ''
      then (fst (deb_trailer verString ver (add_change rel line) cl err (strip_change line)),
            snd (deb_trailer verString ver (add_change rel line) cl err (strip_change line)),
            rest)
      else deb_block verString ver (add_change rel line) cl err rest)"

lemma deb_block_rest_length:
  "length (snd (snd (deb_block verString ver rel cl err ls))) \<le> length ls"
proof (induction ls arbitrary: rel)
  case Nil
  show ?case by simp
next
  case (Cons line rest)
  show ?case
    using Cons.IH [of "add_change rel line"] by (simp add: le_SucI)
qed

text \<open>The outer loop: every line it reads sets the error anew.\<close>

function deb_lines :: "Changelog \<Rightarrow> error option \<Rightarrow> string list \<Rightarrow> Changelog \<times> error option" where
  "deb_lines cl err [] = (cl, err)"
| "deb_lines cl err (line # rest) =
     (let verString = FindString semver line;
          res = ToVersion verString
      in case snd res of
           Some e \<Rightarrow> deb_lines cl (Some e) rest
         | None \<Rightarrow>
            (let ver = fst res;
                 err1 = (if has_key cl ver then Some (MultipleReleases verString) else None);
                 rel = header_fields line zero_Release;
                 blk = deb_block verString ver rel cl err1 rest
             in deb_lines (fst blk) (fst (snd blk)) (snd (snd blk))))"
  by pat_completeness auto
termination
proof (relation "measure (\<lambda>(cl, err, ls). length ls)")
  show "wf (measure (\<lambda>(cl, err, ls). length ls))"
    by simp
next
  fix cl :: Changelog and err :: "error option" and line :: string and rest :: "string list"
    and e :: error
  show "((cl, Some e, rest), cl, err, line # rest) \<in> measure (\<lambda>(cl, err, ls). length ls)"
    by simp
next
  fix cl :: Changelog and err err1 :: "error option" and line verString :: string
    and rest :: "string list" and ver :: Version and rel :: Release
    and blk :: "Changelog \<times> error option \<times> string list"
  assume "blk = deb_block verString ver rel cl err1 rest"
  then have "length (snd (snd blk)) \<le> length rest"
    by (simp add: deb_block_rest_length)
  then show "((fst blk, fst (snd blk), snd (snd blk)), cl, err, line # rest)
      \<in> measure (\<lambda>(cl, err, ls). length ls)"
    by (simp add: case_prod_beta)
qed

declare deb_lines.simps [simp del]

definition ParseDebian :: "string \<Rightarrow> Changelog \<times> error option" where
  "ParseDebian r = deb_lines [] None (scan_lines r)"

section \<open>Notions the statements use\<close>

text \<open>A comparison function for which a stable sort has one result: a strict weak order.\<close>

definition strict_weak :: "('a \<Rightarrow> 'a \<Rightarrow> bool) \<Rightarrow> bool" where
  "strict_weak lt \<longleftrightarrow>
     (\<forall>a. \<not> lt a a) \<and> (\<forall>a b c. lt a b \<longrightarrow> lt b c \<longrightarrow> lt a c) \<and>
     (\<forall>a b c. \<not> lt a b \<longrightarrow> \<not> lt b c \<longrightarrow> \<not> lt a c)"

text \<open>The key by which \<open>release_less\<close> compares: the instant, then the version's fields.\<close>

definition release_key :: "release \<Rightarrow> int \<times> nat \<times> int \<times> int \<times> int \<times> string" where
  "release_key r = (unix (snd r), nanosecond (snd r), Major (fst r), Minor (fst r), Patch (fst r),
     Prerelease (fst r))"

text \<open>The model of the package's formatter test: three releases of one maintainer.\<close>

definition midnight :: "int \<Rightarrow> nat \<Rightarrow> nat \<Rightarrow> Time" where
  "midnight y m d = \<lparr>year = y, month = m, day = d, hour = 0, minute = 0, second = 0,
     nanosecond = 0, zone_offset = 0\<rparr>"

definition john_doe :: Maintainer where
  "john_doe = \<lparr>Name = ''John Doe'', Email = ''john@doe.me''\<rparr>"

definition example_changelog :: Changelog where
  "example_changelog =
     [(\<lparr>Major = 1, Minor = 3, Patch = 0, Prerelease = ''''\<rparr>,
       \<lparr>Date = midnight 2019 7 13,
         Changes = [\<lparr>Type = ''Fixed'', Body = ''some format discrepancies''\<rparr>,
                    \<lparr>Type = ''Added'', Body = ''a useful feature''\<rparr>],
         Urgency = '''', Distribution = '''', Maintainer = john_doe\<rparr>),
      (\<lparr>Major = 1, Minor = 3, Patch = 1, Prerelease = ''''\<rparr>,
       \<lparr>Date = midnight 2019 7 18,
         Changes = [\<lparr>Type = ''Fixed'', Body = ''another bug''\<rparr>,
                    \<lparr>Type = ''Fixed'', Body = ''all the bugs''\<rparr>,
                    \<lparr>Type = ''Added'', Body = ''more features''\<rparr>],
         Urgency = '''', Distribution = '''', Maintainer = john_doe\<rparr>),
      (\<lparr>Major = 1, Minor = 3, Patch = 1, Prerelease = ''rc''\<rparr>,
       \<lparr>Date = midnight 2019 7 17,
         Changes = [\<lparr>Type = ''Fixed'', Body = ''another bug''\<rparr>,
                    \<lparr>Type = ''Fixed'', Body = ''all the bugs''\<rparr>,
                    \<lparr>Type = ''Added'', Body = ''more features''\<rparr>],
         Urgency = '''', Distribution = '''', Maintainer = john_doe\<rparr>)]"

section \<open>Facts about strings, sorting and the map\<close>

lemma HasPrefix_append [simp]: "HasPrefix (p @ s) p"
  by (simp add: HasPrefix_def)

lemma mset_insert_stable: "mset (insert_stable lt x ys) = add_mset x (mset ys)"
  by (induction ys) auto

lemma SliceStable_Cons: "SliceStable lt (x # xs) = insert_stable lt x (SliceStable lt xs)"
  by (simp add: SliceStable_def)

lemma SliceStable_Nil: "SliceStable lt [] = []"
  by (simp add: SliceStable_def)

lemma mset_SliceStable: "mset (SliceStable lt xs) = mset xs"
  by (induction xs) (auto simp: SliceStable_Nil SliceStable_Cons mset_insert_stable)

lemma set_insert_stable: "set (insert_stable lt x ys) = insert x (set ys)"
  by (induction ys) auto

lemma set_SliceStable: "set (SliceStable lt xs) = set xs"
  by (induction xs) (auto simp: SliceStable_Nil SliceStable_Cons set_insert_stable)

lemma sorted_insert_stable:
  assumes "strict_weak lt" and "sorted_wrt (\<lambda>a b. \<not> lt b a) ys"
  shows "sorted_wrt (\<lambda>a b. \<not> lt b a) (insert_stable lt x ys)"
  using assms(2)
proof (induction ys)
  case Nil
  show ?case by simp
next
  case (Cons y ys)
  have asym: "\<And>a b. lt a b \<Longrightarrow> \<not> lt b a"
    using assms(1) unfolding strict_weak_def by blast
  have ntrans: "\<And>a b c. \<not> lt a b \<Longrightarrow> \<not> lt b c \<Longrightarrow> \<not> lt a c"
    using assms(1) unfolding strict_weak_def by blast
  show ?case
  proof (cases "lt y x")
    case True
    then have "\<not> lt x y" by (rule asym)
    with Cons True show ?thesis
      by (auto simp: set_insert_stable)
  next
    case False
    have "\<forall>z\<in>set ys. \<not> lt z x"
      using Cons.prems False ntrans by auto
    with Cons.prems False show ?thesis by simp
  qed
qed

lemma sorted_SliceStable:
  "strict_weak lt \<Longrightarrow> sorted_wrt (\<lambda>a b. \<not> lt b a) (SliceStable lt xs)"
  by (induction xs) (simp_all add: SliceStable_Nil SliceStable_Cons sorted_insert_stable)

lemma filter_insert_stable:
  assumes "\<forall>y\<in>set ys. P y \<longrightarrow> \<not> lt y x"
  shows "filter P (insert_stable lt x ys) = (if P x then x # filter P ys else filter P ys)"
  using assms by (induction ys) auto

lemma filter_insert_stable_out:
  "\<not> P x \<Longrightarrow> filter P (insert_stable lt x ys) = filter P ys"
  by (induction ys) auto

lemma stable_SliceStable:
  assumes "\<forall>x y. P x \<longrightarrow> P y \<longrightarrow> \<not> lt x y"
  shows "filter P (SliceStable lt xs) = filter P xs"
proof (induction xs)
  case Nil
  show ?case by (simp add: SliceStable_Nil)
next
  case (Cons x xs)
  show ?case
  proof (cases "P x")
    case True
    with assms have "\<forall>y\<in>set (SliceStable lt xs). P y \<longrightarrow> \<not> lt y x" by blast
    with True Cons show ?thesis
      by (simp add: SliceStable_Cons filter_insert_stable)
  next
    case False
    with Cons show ?thesis
      by (simp add: SliceStable_Cons filter_insert_stable_out)
  qed
qed

lemma release_less_key: "release_less a b \<longleftrightarrow> release_key a < release_key b"
  unfolding release_less_def Equal_def Before_def release_key_def less_prod_def
  by auto

lemma strict_weak_release_less: "strict_weak release_less"
  unfolding strict_weak_def release_less_key by auto

lemma Version_eqI:
  "Major v = Major w \<Longrightarrow> Minor v = Minor w \<Longrightarrow> Patch v = Patch w \<Longrightarrow>
   Prerelease v = Prerelease w \<Longrightarrow> v = (w :: Version)"
  by (cases v, cases w) simp

lemma release_less_total: "fst a \<noteq> fst b \<Longrightarrow> release_less a b \<or> release_less b a"
proof -
  assume ne: "fst a \<noteq> fst b"
  have "release_key a \<noteq> release_key b"
    using ne Version_eqI unfolding release_key_def by blast
  then show ?thesis
    unfolding release_less_key by (simp add: neq_iff)
qed

lemma release_less_dates:
  "release_less b a \<Longrightarrow> \<not> Equal (snd a) (snd b) \<Longrightarrow> Before (snd b) (snd a)"
  unfolding release_less_def Equal_def by (auto split: if_splits)

lemma strict_weak_change_less: "strict_weak change_less"
  unfolding strict_weak_def change_less_def by auto

lemma map_fst_releases_of: "map fst (releases_of cl) = map fst cl"
  by (induction cl) (auto simp: releases_of_def)

lemma distinct_keys_SliceStable:
  "distinct (map f (SliceStable lt xs)) = distinct (map f xs)"
proof -
  have "mset (map f (SliceStable lt xs)) = mset (map f xs)"
    by (simp add: mset_SliceStable)
  then show ?thesis
    by (rule mset_eq_imp_distinct_iff)
qed

lemma sorted_wrt_strict:
  assumes "sorted_wrt (\<lambda>a b. \<not> release_less b a) xs" and "distinct (map fst xs)"
  shows "sorted_wrt release_less xs"
  using assms
proof (induction xs)
  case Nil
  show ?case by simp
next
  case (Cons x xs)
  have "release_less x y" if "y \<in> set xs" for y
  proof -
    have "fst y \<in> set (map fst xs)" using that by simp
    moreover have "fst x \<notin> set (map fst xs)" using Cons.prems(2) by simp
    ultimately have "fst x \<noteq> fst y" by metis
    moreover have "\<not> release_less y x" using Cons.prems(1) that by simp
    ultimately show ?thesis using release_less_total by blast
  qed
  with Cons show ?case by simp
qed

lemma emit_order_descending:
  assumes "distinct (map fst cl)"
  shows "sorted_wrt (\<lambda>a b. release_less b a) (emit_order cl)"
proof -
  let ?xs = "SliceStable release_less (releases_of cl)"
  have "sorted_wrt (\<lambda>a b. \<not> release_less b a) ?xs"
    by (rule sorted_SliceStable [OF strict_weak_release_less])
  moreover have "distinct (map fst ?xs)"
    using assms by (simp add: distinct_keys_SliceStable map_fst_releases_of)
  ultimately have "sorted_wrt release_less ?xs"
    by (rule sorted_wrt_strict)
  then show ?thesis
    by (simp add: emit_order_def sorted_wrt_rev)
qed

lemma mset_emit_order: "mset (emit_order cl) = mset (releases_of cl)"
  by (simp add: emit_order_def mset_SliceStable)

lemma distinct_emit_order: "distinct (map fst cl) \<Longrightarrow> distinct (map fst (emit_order cl))"
  by (simp add: emit_order_def rev_map [symmetric] distinct_keys_SliceStable map_fst_releases_of)

lemma map_of_assign: "map_of (assign cl k x) = (map_of cl)(k \<mapsto> x)"
  by (simp add: assign_def update_conv')

lemma index_assign_other: "k' \<noteq> k \<Longrightarrow> index (assign cl k x) k' = index cl k'"
  by (simp add: index_def map_of_assign)

lemma index_assign_same: "index (assign cl k x) k = x"
  by (simp add: index_def map_of_assign)

lemma has_key_assign: "has_key (assign cl k x) k' \<longleftrightarrow> k' = k \<or> has_key cl k'"
  by (simp add: has_key_def map_of_assign)

lemma debian_step_text:
  "fst (debian_step pkg (s, cl') r) = s @ release_text pkg (with_defaults (index cl' (fst r))) r"
  by (simp add: debian_step_def Let_def)

lemma debian_step_index:
  "k \<noteq> fst r \<Longrightarrow> index (snd (debian_step pkg (s, cl') r)) k = index cl' k"
  by (simp add: debian_step_def Let_def index_assign_other)

lemma debian_fold_text:
  assumes "distinct (map fst rs)" and "\<forall>r\<in>set rs. index cl' (fst r) = index cl (fst r)"
  shows "fst (foldl (debian_step pkg) (s, cl') rs) =
         s @ concat (map (\<lambda>r. release_text pkg (with_defaults (index cl (fst r))) r) rs)"
  using assms
proof (induction rs arbitrary: s cl')
  case Nil
  show ?case by simp
next
  case (Cons r rs)
  obtain s1 cl1 where st: "debian_step pkg (s, cl') r = (s1, cl1)"
    by (cases "debian_step pkg (s, cl') r")
  have s1: "s1 = s @ release_text pkg (with_defaults (index cl (fst r))) r"
    using debian_step_text [of pkg s cl' r] st Cons.prems(2) by simp
  have idx: "\<forall>q\<in>set rs. index cl1 (fst q) = index cl (fst q)"
  proof
    fix q assume q: "q \<in> set rs"
    then have "fst q \<in> set (map fst rs)" by simp
    moreover have "fst r \<notin> set (map fst rs)" using Cons.prems(1) by simp
    ultimately have "fst q \<noteq> fst r" by metis
    then have "index cl1 (fst q) = index cl' (fst q)"
      using debian_step_index [of "fst q" r pkg s cl'] st by simp
    with q Cons.prems(2) show "index cl1 (fst q) = index cl (fst q)" by simp
  qed
  have "distinct (map fst rs)" using Cons.prems(1) by simp
  then have "fst (foldl (debian_step pkg) (s1, cl1) rs) =
      s1 @ concat (map (\<lambda>r. release_text pkg (with_defaults (index cl (fst r))) r) rs)"
    using idx by (rule Cons.IH)
  then show ?case
    by (simp add: st s1)
qed

lemma debian_loop_text:
  assumes "distinct (map fst cl)"
  shows "fst (debian_loop pkg cl) =
         concat (map (\<lambda>r. release_text pkg (with_defaults (index cl (fst r))) r) (emit_order cl))"
  using debian_fold_text [OF distinct_emit_order [OF assms], of cl cl pkg "[]"]
  by (simp add: debian_loop_def)

lemma HasSuffix_append: "HasSuffix (s @ x) x"
  by (simp add: HasSuffix_def)

lemma TrimSuffix_append: "TrimSuffix (s @ x) x = s"
  by (simp add: TrimSuffix_def HasSuffix_append)

lemma udec_last: "udec n \<noteq> [] \<and> last (udec n) = digit_char (n mod 10)"
proof (induction n rule: udec.induct)
  case (1 n)
  show ?case
    by (subst (1 2) udec.simps) simp
qed

lemma digit_char_not_newline: "digit_char (n mod 10) \<noteq> newline"
proof
  assume a: "digit_char (n mod 10) = newline"
  have "of_char (digit_char (n mod 10)) = (of_char newline :: nat)"
    by (simp only: a)
  then have b: "(48 + n mod 10) mod 256 = (10::nat)"
    by (simp add: digit_char_def newline_def)
  have "n mod 10 < 10"
    by simp
  then have "(48 + n mod 10) mod 256 = 48 + n mod 10"
    by simp
  with b show False
    by simp
qed

lemma appendInt_last: "appendInt x w \<noteq> [] \<and> last (appendInt x w) \<noteq> newline"
  using udec_last [of "nat \<bar>x\<bar>"] digit_char_not_newline [of "nat \<bar>x\<bar>"]
  by (simp add: appendInt_def)

lemma format_zone_last: "format_zone off \<noteq> [] \<and> last (format_zone off) \<noteq> newline"
  using appendInt_last by (simp add: format_zone_def Let_def)

lemma Format_RFC1123Z_last:
  "Format_RFC1123Z t \<noteq> [] \<and> last (Format_RFC1123Z t) \<noteq> newline"
  using format_zone_last [of "zone_offset t"] by (simp add: Format_RFC1123Z_def)

lemma trailer_line_last: "trailer_line rel d \<noteq> [] \<and> last (trailer_line rel d) \<noteq> newline"
  using Format_RFC1123Z_last [of d] by (simp add: trailer_line_def)

lemma release_text_end:
  "\<exists>pre. release_text pkg rel r = pre @ trailer_line rel (snd r) @ [newline, newline]"
  by (simp add: release_text_def)

lemma emit_order_nonempty: "cl \<noteq> [] \<Longrightarrow> emit_order cl \<noteq> []"
  using mset_emit_order [of cl] by (auto simp: releases_of_def)

lemma example_changelog_distinct: "distinct (map fst example_changelog)"
  by code_simp

lemma example_changelog_nonempty: "example_changelog \<noteq> []"
  by (simp add: example_changelog_def)

lemma ToVersion_error: "snd (ToVersion s) = Some e \<Longrightarrow> e = ErrNotSemver"
  by (auto simp: ToVersion_def split: if_splits option.splits)

lemma md_line_invalid_heading:
  assumes "HasPrefix line ''## ''" and "snd (ToVersion (FindString semver line)) \<noteq> None"
  shows "md_line st line = st\<lparr>md_err := Some ErrNotSemver\<rparr>"
proof -
  from assms(2) obtain e where e: "snd (ToVersion (FindString semver line)) = Some e"
    by auto
  then have "e = ErrNotSemver"
    by (rule ToVersion_error)
  with e assms(1) show ?thesis
    by (simp add: md_line_def Let_def)
qed

lemma md_line_err_update:
  "md_line (st\<lparr>md_err := e\<rparr>) l =
     (if HasPrefix l ''## '' then md_line st l else (md_line st l)\<lparr>md_err := e\<rparr>)"
  by (simp add: md_line_def Let_def split: option.splits)

lemma md_lines_Cons: "md_lines st (l # ls) = md_lines (md_line st l) ls"
  by (simp add: md_lines_def)

lemma md_lines_Nil: "md_lines st [] = st"
  by (simp add: md_lines_def)

lemma md_lines_append: "md_lines st (xs @ ys) = md_lines (md_lines st xs) ys"
  by (simp add: md_lines_def)

lemma md_lines_err_update:
  "md_lines (st\<lparr>md_err := e\<rparr>) ls =
     (if list_ex (\<lambda>l. HasPrefix l ''## '') ls then md_lines st ls
      else (md_lines st ls)\<lparr>md_err := e\<rparr>)"
proof (induction ls arbitrary: st)
  case Nil
  show ?case
    by (simp add: md_lines_Nil)
next
  case (Cons l ls)
  show ?case
  proof (cases "HasPrefix l ''## ''")
    case True
    then show ?thesis
      by (simp add: md_lines_Cons md_line_err_update)
  next
    case False
    then show ?thesis
      using Cons.IH [of "md_line st l"] by (simp add: md_lines_Cons md_line_err_update)
  qed
qed

lemma scan_lines_invalid_heading_example:
  "scan_lines (''## 1.0.0'' @ [newline] @ ''- a'' @ [newline] @ ''## Unreleased'' @ [newline] @
     ''- b'' @ [newline]) = [''## 1.0.0'', ''- a''] @ ''## Unreleased'' # [''- b'']"
  by (simp add: scan_lines.simps newline_def dropCR_def)

lemma ToVersion_Unreleased:
  "snd (ToVersion (FindString semver ''## Unreleased'')) = Some ErrNotSemver"
  by code_simp

lemma md_lines_without_invalid_heading_example:
  "md_cl (md_lines md_init ([''## 1.0.0'', ''- a''] @ [''- b''])) =
   [(\<lparr>Major = 1, Minor = 0, Patch = 0, Prerelease = ''''\<rparr>,
     \<lparr>Date = zero_time,
       Changes = [\<lparr>Type = '''', Body = ''a''\<rparr>, \<lparr>Type = '''', Body = ''b''\<rparr>],
       Urgency = '''', Distribution = '''', Maintainer = \<lparr>Name = '''', Email = ''''\<rparr>\<rparr>)]"
  by code_simp

lemma scan_lines_error_reset_example:
  "scan_lines (''## Unreleased'' @ [newline] @ ''## 1.0.0'' @ [newline]) =
   [''## Unreleased'', ''## 1.0.0'']"
  by (simp add: scan_lines.simps newline_def dropCR_def)

lemma md_lines_error_reset_example:
  "md_err (md_lines md_init [''## Unreleased'', ''## 1.0.0'']) = None"
  by code_simp

section \<open>The claims\<close>

text \<open>
  C8. Parsing the Markdown text of the three lines \<^verbatim>\<open>## [2.2.0] - 2019-09-21\<close>,
  \<^verbatim>\<open>### Added\<close> and \<^verbatim>\<open>- a way to set custom battery threshold\<close> returns no error and a
  model with one entry, at version 2.2.0 with the empty prerelease, whose date is
  2019-09-21 and whose changes are the one change of type Added with that body.
\<close>

lemma scan_lines_md_example:
  "scan_lines (''## [2.2.0] - 2019-09-21'' @ [newline] @ ''### Added'' @ [newline] @
     ''- a way to set custom battery threshold'' @ [newline]) =
   [''## [2.2.0] - 2019-09-21'', ''### Added'', ''- a way to set custom battery threshold'']"
  by (simp add: scan_lines.simps newline_def dropCR_def)

lemma md_lines_md_example:
  "md_lines md_init
     [''## [2.2.0] - 2019-09-21'', ''### Added'', ''- a way to set custom battery threshold''] =
   \<lparr>md_cl = [(\<lparr>Major = 2, Minor = 2, Patch = 0, Prerelease = ''''\<rparr>,
      \<lparr>Date = \<lparr>year = 2019, month = 9, day = 21, hour = 0, minute = 0, second = 0,
                nanosecond = 0, zone_offset = 0\<rparr>,
        Changes = [\<lparr>Type = ''Added'', Body = ''a way to set custom battery threshold''\<rparr>],
        Urgency = '''', Distribution = '''', Maintainer = \<lparr>Name = '''', Email = ''''\<rparr>\<rparr>)],
     md_err = None,
     md_curVer = Some \<lparr>Major = 2, Minor = 2, Patch = 0, Prerelease = ''''\<rparr>,
     md_curGrp = ''Added''\<rparr>"
  by code_simp

theorem ParseMd_example:
  "ParseMd (''## [2.2.0] - 2019-09-21'' @ [newline] @ ''### Added'' @ [newline] @
     ''- a way to set custom battery threshold'' @ [newline]) =
   ([(\<lparr>Major = 2, Minor = 2, Patch = 0, Prerelease = ''''\<rparr>,
      \<lparr>Date = \<lparr>year = 2019, month = 9, day = 21, hour = 0, minute = 0, second = 0,
                nanosecond = 0, zone_offset = 0\<rparr>,
        Changes = [\<lparr>Type = ''Added'', Body = ''a way to set custom battery threshold''\<rparr>],
        Urgency = '''', Distribution = '''', Maintainer = \<lparr>Name = '''', Email = ''''\<rparr>\<rparr>)],
    None)"
  unfolding ParseMd_def scan_lines_md_example md_lines_md_example by simp

text \<open>
  C5. For every model (a map: one entry per version), \<open>Debian\<close> writes the releases in
  the order \<open>emit_order\<close>: the entries sorted by \<open>release_less\<close> (date, then major,
  minor, patch, then prerelease as strings) with a stable sort, read from the end. The
  order is a rearrangement of the model's entries, it descends strictly by that key, the
  sort keeps the relative order of entries of equal key, and of two releases whose dates
  differ the later one is written first.
\<close>

theorem Debian_newest_first:
  assumes "distinct (map fst cl)"
  shows "Debian packageName cl =
           TrimSuffix (concat (map (\<lambda>r. release_text packageName
             (with_defaults (index cl (fst r))) r) (emit_order cl))) [newline] \<and>
         emit_order cl = rev (SliceStable release_less (releases_of cl)) \<and>
         mset (emit_order cl) = mset (releases_of cl) \<and>
         sorted_wrt (\<lambda>a b. release_less b a) (emit_order cl) \<and>
         (\<forall>r. filter (\<lambda>x. \<not> release_less x r \<and> \<not> release_less r x)
                 (SliceStable release_less (releases_of cl)) =
               filter (\<lambda>x. \<not> release_less x r \<and> \<not> release_less r x) (releases_of cl)) \<and>
         sorted_wrt (\<lambda>a b. \<not> Equal (snd a) (snd b) \<longrightarrow> Before (snd b) (snd a)) (emit_order cl)"
proof -
  have out: "Debian packageName cl =
      TrimSuffix (concat (map (\<lambda>r. release_text packageName
        (with_defaults (index cl (fst r))) r) (emit_order cl))) [newline]"
    by (simp add: Debian_def debian_loop_text [OF assms])
  have desc: "sorted_wrt (\<lambda>a b. release_less b a) (emit_order cl)"
    by (rule emit_order_descending [OF assms])
  have stable: "filter (\<lambda>x. \<not> release_less x r \<and> \<not> release_less r x)
        (SliceStable release_less (releases_of cl)) =
      filter (\<lambda>x. \<not> release_less x r \<and> \<not> release_less r x) (releases_of cl)" for r
  proof (rule stable_SliceStable)
    show "\<forall>x y. \<not> release_less x r \<and> \<not> release_less r x \<longrightarrow>
        \<not> release_less y r \<and> \<not> release_less r y \<longrightarrow> \<not> release_less x y"
      using strict_weak_release_less unfolding strict_weak_def by blast
  qed
  have dates: "sorted_wrt (\<lambda>a b. \<not> Equal (snd a) (snd b) \<longrightarrow> Before (snd b) (snd a))
      (emit_order cl)"
    by (rule sorted_wrt_mono_rel [OF _ desc]) (simp add: release_less_dates)
  have eo: "emit_order cl = rev (SliceStable release_less (releases_of cl))"
    by (simp add: emit_order_def)
  have ms: "mset (emit_order cl) = mset (releases_of cl)"
    by (rule mset_emit_order)
  show ?thesis
    by (intro conjI allI out eo ms desc stable dates)
qed

lemma example_changelog_order:
  "map (\<lambda>r. version_string (fst r)) (emit_order example_changelog) =
   [''1.3.1'', ''1.3.1-rc'', ''1.3.0'']"
  by code_simp

theorem Debian_newest_first_witness:
  "distinct (map fst example_changelog) \<and>
   map (\<lambda>r. version_string (fst r)) (emit_order example_changelog) =
     [''1.3.1'', ''1.3.1-rc'', ''1.3.0''] \<and>
   sorted_wrt (\<lambda>a b. release_less b a) (emit_order example_changelog) \<and>
   Debian ''awesomeapp'' example_changelog =
     TrimSuffix (concat (map (\<lambda>r. release_text ''awesomeapp''
       (with_defaults (index example_changelog (fst r))) r) (emit_order example_changelog)))
       [newline]"
  using Debian_newest_first [OF example_changelog_distinct, of "''awesomeapp''"]
    example_changelog_distinct example_changelog_order
  by blast

text \<open>
  C9. For every model that is not empty, the bytes \<open>Debian\<close> returns end with the
  trailer line of the release written last, closed by its newline, and nothing comes
  after that line: the text does not end with an empty line.
\<close>

theorem Debian_ends_with_trailer:
  assumes "cl \<noteq> []" and "distinct (map fst cl)"
  shows "HasSuffix (Debian packageName cl)
           (trailer_line (with_defaults (index cl (fst (last (emit_order cl)))))
              (snd (last (emit_order cl))) @ [newline]) \<and>
         \<not> HasSuffix (Debian packageName cl) [newline, newline]"
proof -
  let ?f = "\<lambda>r. release_text packageName (with_defaults (index cl (fst r))) r"
  let ?r = "last (emit_order cl)"
  let ?t = "trailer_line (with_defaults (index cl (fst ?r))) (snd ?r)"
  have ne: "emit_order cl \<noteq> []"
    by (rule emit_order_nonempty [OF assms(1)])
  then have split: "emit_order cl = butlast (emit_order cl) @ [?r]"
    by simp
  obtain pre where pre: "?f ?r = pre @ ?t @ [newline, newline]"
    using release_text_end by blast
  have "fst (debian_loop packageName cl) = concat (map ?f (emit_order cl))"
    by (rule debian_loop_text [OF assms(2)])
  also have "\<dots> = concat (map ?f (butlast (emit_order cl))) @ ?f ?r"
    by (subst split) simp
  finally have "fst (debian_loop packageName cl) =
      (concat (map ?f (butlast (emit_order cl))) @ pre @ ?t @ [newline]) @ [newline]"
    by (simp add: pre)
  then have out: "Debian packageName cl =
      concat (map ?f (butlast (emit_order cl))) @ pre @ ?t @ [newline]"
    unfolding Debian_def by (simp only: TrimSuffix_append)
  have first: "HasSuffix (Debian packageName cl) (?t @ [newline])"
  proof -
    have "Debian packageName cl =
        (concat (map ?f (butlast (emit_order cl))) @ pre) @ (?t @ [newline])"
      using out by simp
    then show ?thesis
      by (simp only: HasSuffix_append)
  qed
  have tl: "?t \<noteq> [] \<and> last ?t \<noteq> newline"
    by (rule trailer_line_last)
  have second: "\<not> HasSuffix (Debian packageName cl) [newline, newline]"
  proof
    assume "HasSuffix (Debian packageName cl) [newline, newline]"
    then have "\<exists>u. Debian packageName cl = u @ [newline, newline]"
      unfolding HasSuffix_def by (metis append_take_drop_id)
    then obtain u where "Debian packageName cl = (u @ [newline]) @ [newline]"
      by auto
    with out have "(concat (map ?f (butlast (emit_order cl))) @ pre @ ?t) @ [newline] =
        (u @ [newline]) @ [newline]"
      by simp
    then have "concat (map ?f (butlast (emit_order cl))) @ pre @ ?t = u @ [newline]"
      by (simp only: append1_eq_conv)
    then have "last (concat (map ?f (butlast (emit_order cl))) @ pre @ ?t) = newline"
      by simp
    with tl show False
      by simp
  qed
  show ?thesis
    using first second by simp
qed

lemma example_changelog_last:
  "trailer_line (with_defaults (index example_changelog (fst (last (emit_order example_changelog)))))
     (snd (last (emit_order example_changelog))) =
   '' -- John Doe <john@doe.me>  Sat, 13 Jul 2019 00:00:00 +0000''"
  by code_simp

theorem Debian_ends_with_trailer_witness:
  "example_changelog \<noteq> [] \<and> distinct (map fst example_changelog) \<and>
   HasSuffix (Debian ''awesomeapp'' example_changelog)
     ('' -- John Doe <john@doe.me>  Sat, 13 Jul 2019 00:00:00 +0000'' @ [newline]) \<and>
   \<not> HasSuffix (Debian ''awesomeapp'' example_changelog) [newline, newline]"
  using Debian_ends_with_trailer [OF example_changelog_nonempty example_changelog_distinct,
      of "''awesomeapp''"]
    example_changelog_nonempty example_changelog_distinct
  by (simp add: example_changelog_last)

text \<open>
  C4. The comparator of \<open>Debian\<close> compares the prereleases as strings, and the empty
  string is less than every other: at equal dates the release 5.2.14 comes before
  5.2.14-rc1. Sorting the seven versions of the package's test \<^verbatim>\<open>TestSortReleases\<close>, all at
  one date, gives 5.2.14, 5.2.14-rc1, 5.2.14-rc2, 5.2.15, 5.3.0, 5.3.0-rc, 6.1.12, while
  the test (and the claim) want 5.2.14-rc1, 5.2.14-rc2, 5.2.14, 5.2.15, 5.3.0-rc, 5.3.0,
  6.1.12.
\<close>

theorem release_less_empty_prerelease_first:
  "release_less (\<lparr>Major = 5, Minor = 2, Patch = 14, Prerelease = ''''\<rparr>, d)
     (\<lparr>Major = 5, Minor = 2, Patch = 14, Prerelease = ''rc1''\<rparr>, d) \<and>
   map (\<lambda>r. version_string (fst r))
     (SliceStable release_less (map (\<lambda>s. (fst (ToVersion s), zero_time))
        [''5.2.14'', ''5.2.14-rc1'', ''6.1.12'', ''5.2.15'', ''5.3.0-rc'', ''5.2.14-rc2'',
         ''5.3.0''])) =
   [''5.2.14'', ''5.2.14-rc1'', ''5.2.14-rc2'', ''5.2.15'', ''5.3.0'', ''5.3.0-rc'', ''6.1.12'']"
proof
  show "release_less (\<lparr>Major = 5, Minor = 2, Patch = 14, Prerelease = ''''\<rparr>, d)
     (\<lparr>Major = 5, Minor = 2, Patch = 14, Prerelease = ''rc1''\<rparr>, d)"
    by (simp add: release_less_def Equal_def)
next
  show "map (\<lambda>r. version_string (fst r))
     (SliceStable release_less (map (\<lambda>s. (fst (ToVersion s), zero_time))
        [''5.2.14'', ''5.2.14-rc1'', ''6.1.12'', ''5.2.15'', ''5.3.0-rc'', ''5.2.14-rc2'',
         ''5.3.0''])) =
   [''5.2.14'', ''5.2.14-rc1'', ''5.2.14-rc2'', ''5.2.15'', ''5.3.0'', ''5.3.0-rc'', ''6.1.12'']"
    by code_simp
qed

text \<open>
  C6. The string \<^verbatim>\<open>1.2.3-0a\<close> matches the anchored pattern as a whole (its prerelease
  \<^verbatim>\<open>0a\<close> is an alphanumeric identifier). \<open>ToVersion\<close> then takes the fields with the
  pattern that is not anchored, whose leftmost match is \<^verbatim>\<open>1.2.3-0\<close>: the replacement
  for the major number is \<^verbatim>\<open>1a\<close>, \<^verbatim>\<open>Atoi\<close> fails on it, and its error lives in a variable
  that shadows the result. \<open>ToVersion\<close> returns the zero version and no error.
\<close>

theorem ToVersion_full_match_zero_version:
  "MatchString_anchored semver ''1.2.3-0a'' \<and>
   ReplaceAllString semver ''1.2.3-0a'' ''major'' = ''1a'' \<and>
   ToVersion ''1.2.3-0a'' = (zero_Version, None)"
  by code_simp

text \<open>
  C7. \<open>Debian\<close> sorts the changes of a release in place, in the array the caller's
  model holds: a release whose changes are Fixed, Added has them as Added, Fixed in the
  model once \<open>Debian\<close> has returned. (The defaults of urgency and distribution are
  not written to the model.)
\<close>

theorem Debian_reorders_callers_changes:
  "Debian_model_after ''awesomeapp''
     [(\<lparr>Major = 1, Minor = 3, Patch = 0, Prerelease = ''''\<rparr>,
       \<lparr>Date = midnight 2019 7 13,
         Changes = [\<lparr>Type = ''Fixed'', Body = ''some format discrepancies''\<rparr>,
                    \<lparr>Type = ''Added'', Body = ''a useful feature''\<rparr>],
         Urgency = '''', Distribution = '''', Maintainer = john_doe\<rparr>)] =
     [(\<lparr>Major = 1, Minor = 3, Patch = 0, Prerelease = ''''\<rparr>,
       \<lparr>Date = midnight 2019 7 13,
         Changes = [\<lparr>Type = ''Added'', Body = ''a useful feature''\<rparr>,
                    \<lparr>Type = ''Fixed'', Body = ''some format discrepancies''\<rparr>],
         Urgency = '''', Distribution = '''', Maintainer = john_doe\<rparr>)]"
  by code_simp

text \<open>
  C10, as the claim states it, fails: every level-2 heading sets the error anew, so the
  error of an invalid heading is lost when a valid heading comes later. The text of the
  two lines \<^verbatim>\<open>## Unreleased\<close> and \<^verbatim>\<open>## 1.0.0\<close> has an invalid heading, and \<open>ParseMd\<close>
  returns no error for it.
\<close>

theorem ParseMd_invalid_heading_error_lost:
  "HasPrefix ''## Unreleased'' ''## '' \<and>
   snd (ToVersion (FindString semver ''## Unreleased'')) = Some ErrNotSemver \<and>
   snd (ParseMd (''## Unreleased'' @ [newline] @ ''## 1.0.0'' @ [newline])) = None"
  unfolding ParseMd_def Let_def scan_lines_error_reset_example
  by (simp add: ToVersion_Unreleased md_lines_error_reset_example HasPrefix_def)

text \<open>
  C10, amended. A level-2 heading whose version string is invalid changes nothing but
  the error: the map, the open release and the open group stay as they are, so the model
  \<open>ParseMd\<close> returns is the one it returns for the lines without that heading (the
  bullet lines after it go to the release the last valid heading opened, or nowhere if
  there is none). The error \<open>ErrNotSemver\<close> of that heading is the error returned
  provided no level-2 heading comes after it.
\<close>

theorem ParseMd_invalid_heading:
  assumes "scan_lines r = pre @ line # rest"
    and "HasPrefix line ''## ''"
    and "snd (ToVersion (FindString semver line)) \<noteq> None"
  shows "(\<forall>st. md_line st line = st\<lparr>md_err := Some ErrNotSemver\<rparr>) \<and>
         fst (ParseMd r) = md_cl (md_lines md_init (pre @ rest)) \<and>
         (\<not> list_ex (\<lambda>l. HasPrefix l ''## '') rest \<longrightarrow> snd (ParseMd r) = Some ErrNotSemver)"
proof -
  have step: "md_line st line = st\<lparr>md_err := Some ErrNotSemver\<rparr>" for st
    by (rule md_line_invalid_heading [OF assms(2) assms(3)])
  let ?st = "md_lines md_init pre"
  have run: "md_lines md_init (scan_lines r) =
      md_lines (?st\<lparr>md_err := Some ErrNotSemver\<rparr>) rest"
    by (simp add: assms(1) md_lines_append md_lines_Cons step)
  have model: "fst (ParseMd r) = md_cl (md_lines md_init (pre @ rest))"
    by (simp add: ParseMd_def Let_def run md_lines_err_update md_lines_append)
  have err: "snd (ParseMd r) = Some ErrNotSemver"
    if "\<not> list_ex (\<lambda>l. HasPrefix l ''## '') rest"
    using that by (simp add: ParseMd_def Let_def run md_lines_err_update)
  show ?thesis
    using step model err by blast
qed

theorem ParseMd_invalid_heading_witness:
  "scan_lines (''## 1.0.0'' @ [newline] @ ''- a'' @ [newline] @ ''## Unreleased'' @ [newline] @
     ''- b'' @ [newline]) = [''## 1.0.0'', ''- a''] @ ''## Unreleased'' # [''- b''] \<and>
   HasPrefix ''## Unreleased'' ''## '' \<and>
   snd (ToVersion (FindString semver ''## Unreleased'')) = Some ErrNotSemver \<and>
   fst (ParseMd (''## 1.0.0'' @ [newline] @ ''- a'' @ [newline] @ ''## Unreleased'' @ [newline] @
     ''- b'' @ [newline])) =
     [(\<lparr>Major = 1, Minor = 0, Patch = 0, Prerelease = ''''\<rparr>,
       \<lparr>Date = zero_time,
         Changes = [\<lparr>Type = '''', Body = ''a''\<rparr>, \<lparr>Type = '''', Body = ''b''\<rparr>],
         Urgency = '''', Distribution = '''', Maintainer = \<lparr>Name = '''', Email = ''''\<rparr>\<rparr>)] \<and>
   snd (ParseMd (''## 1.0.0'' @ [newline] @ ''- a'' @ [newline] @ ''## Unreleased'' @ [newline] @
     ''- b'' @ [newline])) = Some ErrNotSemver"
  using ParseMd_invalid_heading [OF scan_lines_invalid_heading_example]
    scan_lines_invalid_heading_example ToVersion_Unreleased
    md_lines_without_invalid_heading_example
  by (simp add: HasPrefix_def)

end
